theory Spec2Isabelle
  imports Complex_Main "HOL-Library.AList"
begin

section \<open>The photo editor (PhotoEditor, src/components/LinkPreviewDialog.tsx)\<close>

text \<open>
  The component keeps its state in React hooks; the model keeps it in one record and
  every handler takes the state and returns the new one. Pointer coordinates are
  whole pixels (\<open>int\<close>); a pixel is its four channels, each a natural number.
\<close>

subsection \<open>Data\<close>

datatype Tool = ToolNone | ToolCrop | ToolMosaic | ToolRectangle | ToolCircle | ToolPen | ToolEraser

record Point =
  px :: int
  py :: int

datatype ActionType = Mosaic | Rectangle | Circle | Pen

record DrawAction =
  a_type :: ActionType
  a_points :: "Point list"
  a_color :: string
  a_lineWidth :: "int option"

type_synonym rgba = "nat \<times> nat \<times> nat \<times> nat"

text \<open>A bitmap (the canvas, or a decoded image): its size and the colour of each pixel.\<close>

record Surface =
  s_width :: nat
  s_height :: nat
  s_pixel :: "int \<Rightarrow> int \<Rightarrow> rgba"

record ImageData =
  d_width :: nat
  d_height :: nat
  d_data :: "rgba list"

subsection \<open>The canvas operations the editor calls\<close>

text \<open>
  These follow the HTML canvas interface. A fresh or resized canvas is transparent
  black. \<open>getImageData\<close> reads a rectangle row by row, a position outside the
  canvas reading as transparent black, and raises IndexSizeError (here \<open>None\<close>)
  when the rectangle has no width or no height. \<open>fillRect\<close> with an opaque colour
  overwrites the pixels of the rectangle that lie on the canvas.
\<close>

definition transparent :: rgba where
  "transparent = (0, 0, 0, 0)"

definition blank :: "nat \<Rightarrow> nat \<Rightarrow> Surface" where
  "blank w h = \<lparr>s_width = w, s_height = h, s_pixel = (\<lambda>a b. transparent)\<rparr>"

definition onSurface :: "Surface \<Rightarrow> int \<Rightarrow> int \<Rightarrow> bool" where
  "onSurface s a b \<longleftrightarrow> 0 \<le> a \<and> a < int (s_width s) \<and> 0 \<le> b \<and> b < int (s_height s)"

definition pixelAt :: "Surface \<Rightarrow> int \<Rightarrow> int \<Rightarrow> rgba" where
  "pixelAt s a b = (if onSurface s a b then s_pixel s a b else transparent)"

definition clearRect :: "Surface \<Rightarrow> Surface" where
  "clearRect s = s\<lparr>s_pixel := (\<lambda>a b. transparent)\<rparr>"

definition getImageData :: "Surface \<Rightarrow> int \<Rightarrow> int \<Rightarrow> nat \<Rightarrow> nat \<Rightarrow> ImageData option" where
  "getImageData s sx sy sw sh =
     (if sw = 0 \<or> sh = 0 then None
      else Some \<lparr>d_width = sw, d_height = sh,
                  d_data = concat (map (\<lambda>j. map (\<lambda>i. pixelAt s (sx + int i) (sy + int j)) [0..<sw])
                                        [0..<sh])\<rparr>)"

definition putImageData :: "ImageData \<Rightarrow> Surface \<Rightarrow> Surface" where
  "putImageData d s =
     s\<lparr>s_pixel := (\<lambda>a b.
          if 0 \<le> a \<and> a < int (d_width d) \<and> 0 \<le> b \<and> b < int (d_height d) \<and> onSurface s a b
          then d_data d ! (nat b * d_width d + nat a)
          else s_pixel s a b)\<rparr>"

definition fillRect :: "rgba \<Rightarrow> int \<Rightarrow> int \<Rightarrow> nat \<Rightarrow> nat \<Rightarrow> Surface \<Rightarrow> Surface" where
  "fillRect c fx fy fw fh s =
     s\<lparr>s_pixel := (\<lambda>a b.
          if fx \<le> a \<and> a < fx + int fw \<and> fy \<le> b \<and> b < fy + int fh \<and> onSurface s a b
          then c
          else s_pixel s a b)\<rparr>"

text \<open>
  What the browser's rasteriser does is not part of the repository: how an image is
  resampled to the canvas size, which pixels a stroked outline touches, and the size
  the set-up effect computes in floating point for an image wider than 800 or higher
  than 600. These are parameters of the model. A stroked shape is described by what
  the code passes: a rectangle by corner and (signed) extents, a circle by its centre
  and the square of its radius (the code takes the root of exactly this number), a
  polyline by the point it moves to followed by the points it draws lines to.
\<close>

datatype Shape =
    RectShape int int int int
  | ArcShape int int int
  | PolyShape Point "Point list"

record Style =
  strokeStyle :: string
  strokeWidth :: int
  lineDash :: "nat list"

record Raster =
  drawImage :: "Surface \<Rightarrow> Surface \<Rightarrow> Surface"
  stroke :: "Style \<Rightarrow> Shape \<Rightarrow> Surface \<Rightarrow> Surface"
  scaleDown :: "nat \<Rightarrow> nat \<Rightarrow> nat \<times> nat"

subsection \<open>applyMosaic\<close>

definition mosaicSize :: nat where
  "mosaicSize = 10"

definition red :: "rgba \<Rightarrow> nat" where
  "red c = (case c of (r, g, b, a) \<Rightarrow> r)"

definition green :: "rgba \<Rightarrow> nat" where
  "green c = (case c of (r, g, b, a) \<Rightarrow> g)"

definition blue :: "rgba \<Rightarrow> nat" where
  "blue c = (case c of (r, g, b, a) \<Rightarrow> b)"

text \<open>The inner loop over the pixel array: three sums and a count, then the floored quotients.\<close>

definition averageColor :: "rgba list \<Rightarrow> rgba option" where
  "averageColor pixels =
     (let r = sum_list (map red pixels);
          g = sum_list (map green pixels);
          b = sum_list (map blue pixels);
          count = length pixels
      in if count > 0 then Some (r div count, g div count, b div count, 255) else None)"

definition mosaicBlock :: "Surface \<Rightarrow> int \<Rightarrow> int \<Rightarrow> Surface" where
  "mosaicBlock s mX mY =
     (case getImageData s mX mY mosaicSize mosaicSize of
        None \<Rightarrow> s
      | Some imageData \<Rightarrow>
          (case averageColor (d_data imageData) of
             None \<Rightarrow> s
           | Some c \<Rightarrow> fillRect c mX mY mosaicSize mosaicSize s))"

function mosaicRow :: "Surface \<Rightarrow> int \<Rightarrow> int \<Rightarrow> int \<Rightarrow> Surface" where
  "mosaicRow s mX xEnd mY =
     (if mX < xEnd then mosaicRow (mosaicBlock s mX mY) (mX + int mosaicSize) xEnd mY else s)"
  by pat_completeness auto
termination
  by (relation "measure (\<lambda>(s, mX, xEnd, mY). nat (xEnd - mX))") (auto simp: mosaicSize_def)

function mosaicRows :: "Surface \<Rightarrow> int \<Rightarrow> int \<Rightarrow> int \<Rightarrow> int \<Rightarrow> Surface" where
  "mosaicRows s x0 xEnd mY yEnd =
     (if mY < yEnd then mosaicRows (mosaicRow s x0 xEnd mY) x0 xEnd (mY + int mosaicSize) yEnd else s)"
  by pat_completeness auto
termination
  by (relation "measure (\<lambda>(s, x0, xEnd, mY, yEnd). nat (yEnd - mY))") (auto simp: mosaicSize_def)

declare mosaicRow.simps [simp del] mosaicRows.simps [simp del]

definition applyMosaic :: "Surface \<Rightarrow> Point list \<Rightarrow> Surface" where
  "applyMosaic s points =
     (case points of
        p0 # p1 # rest \<Rightarrow>
          (let x0 = min (px p0) (px p1);
               y0 = min (py p0) (py p1);
               w = \<bar>px p1 - px p0\<bar>;
               h = \<bar>py p1 - py p0\<bar>
           in mosaicRows s x0 (x0 + w) y0 (y0 + h))
      | _ \<Rightarrow> s)"

subsection \<open>applyAction and redrawCanvas\<close>

definition actionStyle :: "DrawAction \<Rightarrow> Style" where
  "actionStyle action =
     \<lparr>strokeStyle = a_color action,
      strokeWidth = (case a_lineWidth action of None \<Rightarrow> 3 | Some w \<Rightarrow> if w = 0 then 3 else w),
      lineDash = []\<rparr>"

definition applyAction :: "Raster \<Rightarrow> Surface \<Rightarrow> DrawAction \<Rightarrow> Surface" where
  "applyAction api s action =
     (case a_type action of
        Mosaic \<Rightarrow> applyMosaic s (a_points action)
      | Rectangle \<Rightarrow>
          (case a_points action of
             p0 # p1 # rest \<Rightarrow>
               stroke api (actionStyle action)
                 (RectShape (px p0) (py p0) (px p1 - px p0) (py p1 - py p0)) s
           | _ \<Rightarrow> s)
      | Circle \<Rightarrow>
          (case a_points action of
             p0 # p1 # rest \<Rightarrow>
               stroke api (actionStyle action)
                 (ArcShape (px p0) (py p0) ((px p1 - px p0)\<^sup>2 + (py p1 - py p0)\<^sup>2)) s
           | _ \<Rightarrow> s)
      | Pen \<Rightarrow>
          (case a_points action of
             p0 # p1 # rest \<Rightarrow> stroke api (actionStyle action) (PolyShape p0 (a_points action)) s
           | _ \<Rightarrow> s))"

text \<open>\<open>Array.prototype.slice(0, n)\<close>: a negative end counts from the end of the array.\<close>

definition slice0 :: "'a list \<Rightarrow> int \<Rightarrow> 'a list" where
  "slice0 xs n = (if n < 0 then take (nat (int (length xs) + n)) xs else take (nat n) xs)"

record EditorState =
  image :: "Surface option"
  tool :: Tool
  color :: string
  lineWidth :: int
  isDrawing :: bool
  startPoint :: "Point option"
  currentPath :: "Point list"
  history :: "DrawAction list"
  historyStep :: int
  canvas :: Surface
  loading :: "Surface list"

text \<open>
  \<open>canvas\<close> is the bitmap of the canvas element, which is mounted exactly while an
  image is set; \<open>loading\<close> holds the cropped images whose \<open>onload\<close> has not fired.
\<close>

definition initialState :: EditorState where
  "initialState =
     \<lparr>image = None, tool = ToolNone, color = ''#ff0000'', lineWidth = 3, isDrawing = False,
      startPoint = None, currentPath = [], history = [], historyStep = - 1,
      canvas = blank 300 150, loading = []\<rparr>"

definition redrawCanvas :: "Raster \<Rightarrow> EditorState \<Rightarrow> Surface" where
  "redrawCanvas api st =
     (case image st of
        None \<Rightarrow> canvas st
      | Some img \<Rightarrow>
          foldl (applyAction api) (drawImage api img (clearRect (canvas st)))
            (slice0 (history st) (historyStep st + 1)))"

text \<open>
  The two effects that run after a render in which the image, the history or the
  cursor changed: the canvas takes the size of the image (scaled down when it is
  larger than 800 by 600), which clears it, and is redrawn.
\<close>

definition canvasSize :: "Raster \<Rightarrow> Surface \<Rightarrow> nat \<times> nat" where
  "canvasSize api img =
     (if s_width img > 800 \<or> s_height img > 600 then scaleDown api (s_width img) (s_height img)
      else (s_width img, s_height img))"

definition rerender :: "Raster \<Rightarrow> EditorState \<Rightarrow> EditorState" where
  "rerender api st =
     (case image st of
        None \<Rightarrow> st
      | Some img \<Rightarrow>
          (let st1 = st\<lparr>canvas := blank (fst (canvasSize api img)) (snd (canvasSize api img))\<rparr>
           in st1\<lparr>canvas := redrawCanvas api st1\<rparr>))"

subsection \<open>History\<close>

text \<open>
  A handler that sets the history or moves the cursor is followed by the render in
  which the effects run, so each of the three below ends with \<open>rerender\<close>. Undo and
  redo set no state when their guard fails, and then nothing is rendered.
\<close>

definition addToHistory :: "Raster \<Rightarrow> DrawAction \<Rightarrow> EditorState \<Rightarrow> EditorState" where
  "addToHistory api action st =
     (let newHistory = slice0 (history st) (historyStep st + 1) @ [action]
      in rerender api (st\<lparr>history := newHistory, historyStep := int (length newHistory) - 1\<rparr>))"

definition handleUndo :: "Raster \<Rightarrow> EditorState \<Rightarrow> EditorState" where
  "handleUndo api st =
     (if historyStep st > - 1 then rerender api (st\<lparr>historyStep := historyStep st - 1\<rparr>) else st)"

definition handleRedo :: "Raster \<Rightarrow> EditorState \<Rightarrow> EditorState" where
  "handleRedo api st =
     (if historyStep st < int (length (history st)) - 1
      then rerender api (st\<lparr>historyStep := historyStep st + 1\<rparr>) else st)"

subsection \<open>Gestures\<close>

definition handleMouseDown :: "Point \<Rightarrow> EditorState \<Rightarrow> EditorState" where
  "handleMouseDown point st =
     (if tool st = ToolNone then st
      else st\<lparr>isDrawing := True, startPoint := Some point,
              currentPath := (if tool st = ToolPen then [point] else currentPath st)\<rparr>)"

definition previewStyle :: "EditorState \<Rightarrow> Style" where
  "previewStyle st = \<lparr>strokeStyle = color st, strokeWidth = lineWidth st, lineDash = []\<rparr>"

definition dashed :: "string \<Rightarrow> Style" where
  "dashed c = \<lparr>strokeStyle = c, strokeWidth = 2, lineDash = [5, 5]\<rparr>"

text \<open>
  With the pen and an empty path the handler stores the new path, redraws, and then
  fails reading the first point of the old path: the preview is not drawn.
\<close>

definition handleMouseMove :: "Raster \<Rightarrow> Point \<Rightarrow> EditorState \<Rightarrow> EditorState" where
  "handleMouseMove api point st =
     (case startPoint st of
        None \<Rightarrow> st
      | Some sp \<Rightarrow>
          if \<not> isDrawing st \<or> image st = None then st
          else
            (let c = redrawCanvas api st;
                 w = px point - px sp;
                 h = py point - py sp
             in case tool st of
                  ToolCrop \<Rightarrow> st\<lparr>canvas := stroke api (dashed ''#000'') (RectShape (px sp) (py sp) w h) c\<rparr>
                | ToolMosaic \<Rightarrow> st\<lparr>canvas := stroke api (dashed ''#ff0000'') (RectShape (px sp) (py sp) w h) c\<rparr>
                | ToolRectangle \<Rightarrow> st\<lparr>canvas := stroke api (previewStyle st) (RectShape (px sp) (py sp) w h) c\<rparr>
                | ToolCircle \<Rightarrow> st\<lparr>canvas := stroke api (previewStyle st) (ArcShape (px sp) (py sp) (w\<^sup>2 + h\<^sup>2)) c\<rparr>
                | ToolPen \<Rightarrow>
                    (let newPath = currentPath st @ [point]
                     in case currentPath st of
                          [] \<Rightarrow> st\<lparr>currentPath := newPath, canvas := c\<rparr>
                        | p0 # rest \<Rightarrow>
                            st\<lparr>currentPath := newPath,
                               canvas := stroke api (previewStyle st) (PolyShape p0 newPath) c\<rparr>)
                | _ \<Rightarrow> st\<lparr>canvas := c\<rparr>))"

text \<open>
  \<open>applyCrop\<close> returns \<open>None\<close> when \<open>getImageData\<close> raises, which ends the calling
  handler at that point. Otherwise the canvas takes the size of the region and shows
  it, and an image made of the canvas starts loading.
\<close>

definition applyCrop :: "Point \<Rightarrow> Point \<Rightarrow> EditorState \<Rightarrow> EditorState option" where
  "applyCrop p0 p1 st =
     (if image st = None then Some st
      else
        (let x0 = min (px p0) (px p1);
             y0 = min (py p0) (py p1);
             w = nat \<bar>px p1 - px p0\<bar>;
             h = nat \<bar>py p1 - py p0\<bar>
         in case getImageData (canvas st) x0 y0 w h of
              None \<Rightarrow> None
            | Some imageData \<Rightarrow>
                (let c = putImageData imageData (blank w h)
                 in Some (st\<lparr>canvas := c, loading := loading st @ [c]\<rparr>))))"

definition endGesture :: "EditorState \<Rightarrow> EditorState" where
  "endGesture st = st\<lparr>startPoint := None, currentPath := []\<rparr>"

definition handleMouseUp :: "Raster \<Rightarrow> Point \<Rightarrow> EditorState \<Rightarrow> EditorState" where
  "handleMouseUp api point st =
     (case startPoint st of
        None \<Rightarrow> st
      | Some sp \<Rightarrow>
          if \<not> isDrawing st then st
          else
            (let st1 = st\<lparr>isDrawing := False\<rparr>
             in case tool st of
                  ToolCrop \<Rightarrow>
                    (case applyCrop sp point st1 of None \<Rightarrow> st1 | Some st2 \<Rightarrow> endGesture st2)
                | ToolMosaic \<Rightarrow>
                    endGesture (addToHistory api
                      \<lparr>a_type = Mosaic, a_points = [sp, point], a_color = color st,
                       a_lineWidth = None\<rparr> st1)
                | ToolRectangle \<Rightarrow>
                    endGesture (addToHistory api
                      \<lparr>a_type = Rectangle, a_points = [sp, point], a_color = color st,
                       a_lineWidth = Some (lineWidth st)\<rparr> st1)
                | ToolCircle \<Rightarrow>
                    endGesture (addToHistory api
                      \<lparr>a_type = Circle, a_points = [sp, point], a_color = color st,
                       a_lineWidth = Some (lineWidth st)\<rparr> st1)
                | ToolPen \<Rightarrow>
                    (if length (currentPath st) > 1
                     then endGesture (addToHistory api
                            \<lparr>a_type = Pen, a_points = currentPath st, a_color = color st,
                             a_lineWidth = Some (lineWidth st)\<rparr> st1)
                     else endGesture st1)
                | _ \<Rightarrow> endGesture st1))"

subsection \<open>Image loads and the event loop\<close>

text \<open>
  The \<open>onload\<close> callbacks. An image read from a file or a URL only calls
  \<open>setImage\<close>; a cropped image also resets the history.
\<close>

definition imageLoaded :: "Raster \<Rightarrow> Surface \<Rightarrow> EditorState \<Rightarrow> EditorState" where
  "imageLoaded api img st = rerender api (st\<lparr>image := Some img\<rparr>)"

definition cropLoaded :: "Raster \<Rightarrow> nat \<Rightarrow> EditorState \<Rightarrow> EditorState" where
  "cropLoaded api i st =
     (if i < length (loading st)
      then rerender api
             (st\<lparr>image := Some (loading st ! i), history := [], historyStep := - 1,
                 loading := take i (loading st) @ drop (Suc i) (loading st)\<rparr>)
      else st)"

datatype Event =
    MouseDown Point
  | MouseMove Point
  | MouseUp Point
  | Undo
  | Redo
  | SetTool Tool
  | SetColor string
  | SetLineWidth int
  | ImageLoaded Surface
  | CropLoaded nat

text \<open>Pointer events reach the handlers only while the canvas element is mounted.\<close>

fun fire :: "Raster \<Rightarrow> EditorState \<Rightarrow> Event \<Rightarrow> EditorState" where
  "fire api st (MouseDown p) = (if image st = None then st else handleMouseDown p st)"
| "fire api st (MouseMove p) = (if image st = None then st else handleMouseMove api p st)"
| "fire api st (MouseUp p) = (if image st = None then st else handleMouseUp api p st)"
| "fire api st Undo = handleUndo api st"
| "fire api st Redo = handleRedo api st"
| "fire api st (SetTool t) = st\<lparr>tool := t\<rparr>"
| "fire api st (SetColor c) = st\<lparr>color := c\<rparr>"
| "fire api st (SetLineWidth w) = st\<lparr>lineWidth := w\<rparr>"
| "fire api st (ImageLoaded img) = imageLoaded api img st"
| "fire api st (CropLoaded i) = cropLoaded api i st"

definition run :: "Raster \<Rightarrow> EditorState \<Rightarrow> Event list \<Rightarrow> EditorState" where
  "run api st evs = foldl (fire api) st evs"

text \<open>Recording a sequence of actions one after the other.\<close>

definition recordAll :: "Raster \<Rightarrow> EditorState \<Rightarrow> DrawAction list \<Rightarrow> EditorState" where
  "recordAll api st acts = foldl (\<lambda>s a. addToHistory api a s) st acts"

text \<open>The invariant of the history cursor.\<close>

definition cursorInv :: "EditorState \<Rightarrow> bool" where
  "cursorInv st \<longleftrightarrow> - 1 \<le> historyStep st \<and> historyStep st < int (length (history st))"

text \<open>The canvas shows what the effects would draw.\<close>

definition synced :: "Raster \<Rightarrow> EditorState \<Rightarrow> bool" where
  "synced api st \<longleftrightarrow> rerender api st = st"

definition composite :: "Raster \<Rightarrow> Surface \<Rightarrow> DrawAction list \<Rightarrow> Surface" where
  "composite api img acts =
     foldl (applyAction api)
       (drawImage api img (blank (fst (canvasSize api img)) (snd (canvasSize api img)))) acts"

section \<open>Merging two image blocks (mergeImages, src/CustomImageExtension.tsx)\<close>

subsection \<open>The document\<close>

text \<open>
  The editor's document is indexed by positions that count tokens: one for a leaf
  node or a character, one each for the start and for the end of any other node. The
  model keeps the document as this sequence of tokens, so that a position is an index
  into it. The image node is an inline leaf: one token, node size 1. Its attributes
  are an object, kept as the list of its keys and values in order; an attribute that
  is null is left out.
\<close>

type_synonym Attrs = "(string \<times> string) list"

record Node =
  n_type :: string
  n_attrs :: Attrs
  n_content :: "string list"
  n_marks :: "string list"

datatype Token = Open string | Close | Chr char | Leaf Node

type_synonym Doc = "Token list"

definition nodeSize :: "Node \<Rightarrow> nat" where
  "nodeSize n = 1"

text \<open>
  \<open>doc.descendants\<close> with the callback of \<open>mergeImages\<close>: every node is visited in
  document order, and a node of the image type whose id is the dragged id overwrites
  what was found before (returning false only keeps the walk out of that node's
  children, and an image has none).
\<close>

fun descendants :: "string \<Rightarrow> string \<Rightarrow> Doc \<Rightarrow> nat \<Rightarrow> (nat \<times> Node) option \<Rightarrow> (nat \<times> Node) option" where
  "descendants ty draggedId [] pos found = found"
| "descendants ty draggedId (t # ts) pos found =
     descendants ty draggedId ts (Suc pos)
       (case t of
          Leaf n \<Rightarrow>
            if n_type n = ty \<and> map_of (n_attrs n) ''id'' = Some draggedId then Some (pos, n)
            else found
        | _ \<Rightarrow> found)"

text \<open>
  \<open>doc.nodeAt\<close>: the node that starts at a position, null where none starts (at the
  end of a node), a RangeError beyond the document. A node that is not a leaf, and a
  text node, are told apart from an image only.
\<close>

datatype Lookup = OutOfRange | NoNode | OtherNode | ImageNode Node

definition nodeAt :: "Doc \<Rightarrow> nat \<Rightarrow> Lookup" where
  "nodeAt doc pos =
     (if pos > length doc then OutOfRange
      else if pos = length doc then NoNode
      else (case doc ! pos of Leaf n \<Rightarrow> ImageNode n | Close \<Rightarrow> NoNode | _ \<Rightarrow> OtherNode))"

text \<open>
  The steps of a transaction, on leaves. \<open>setNodeMarkup\<close> with no type and no marks
  keeps both and builds the node anew with the given attributes and no content;
  \<open>delete\<close> removes a range of tokens; \<open>insert\<close> puts a node at a position. A step
  that raises gives \<open>None\<close>.
\<close>

definition setNodeMarkup :: "nat \<Rightarrow> Attrs \<Rightarrow> Doc \<Rightarrow> Doc option" where
  "setNodeMarkup pos attrs doc =
     (if pos < length doc then
        (case doc ! pos of
           Leaf n \<Rightarrow>
             Some (doc[pos := Leaf \<lparr>n_type = n_type n, n_attrs = attrs, n_content = [],
                                     n_marks = n_marks n\<rparr>])
         | _ \<Rightarrow> None)
      else None)"

definition deleteRange :: "nat \<Rightarrow> nat \<Rightarrow> Doc \<Rightarrow> Doc option" where
  "deleteRange from to doc =
     (if from \<le> to \<and> to \<le> length doc then Some (take from doc @ drop to doc) else None)"

definition insertNode :: "nat \<Rightarrow> Node \<Rightarrow> Doc \<Rightarrow> Doc option" where
  "insertNode pos n doc =
     (if pos \<le> length doc then Some (take pos doc @ Leaf n # drop pos doc) else None)"

subsection \<open>Widths\<close>

text \<open>
  An aspect ratio is a quotient of natural sizes, here an exact rational. The probe
  gives the natural size of the image behind a \<open>src\<close>, or \<open>None\<close> when it fails to
  load, and then the ratio is 1. With a natural height of 0 the quotient is not a
  finite number: \<open>None\<close>.
\<close>

definition getImageAspectRatio :: "(string option \<Rightarrow> (nat \<times> nat) option) \<Rightarrow> string option \<Rightarrow> rat option" where
  "getImageAspectRatio probe imgSrc =
     (case probe imgSrc of
        None \<Rightarrow> Some 1
      | Some (w, h) \<Rightarrow> if h = 0 then None else Some (of_nat w / of_nat h))"

text \<open>\<open>Math.round\<close>: the nearest integer, a tie going up.\<close>

definition mathRound :: "rat \<Rightarrow> int" where
  "mathRound v = \<lfloor>v + 1 / 2\<rfloor>"

text \<open>The two percentages; \<open>None\<close> when the ratios add up to 0 and the quotient is NaN.\<close>

definition widthPercents :: "rat \<Rightarrow> rat \<Rightarrow> (int \<times> int) option" where
  "widthPercents targetRatio draggedRatio =
     (let totalRatio = targetRatio + draggedRatio
      in if totalRatio = 0 then None
         else
           (let targetWidthPercent = mathRound ((targetRatio / totalRatio) * 98);
                draggedWidthPercent = 98 - targetWidthPercent
            in Some (targetWidthPercent, draggedWidthPercent)))"

text \<open>An integer in a template string, followed by the percent sign.\<close>

fun showNat :: "nat \<Rightarrow> string" where
  "showNat n =
     (if n < 10 then [''0123456789'' ! n]
      else showNat (n div 10) @ [''0123456789'' ! (n mod 10)])"

definition showInt :: "int \<Rightarrow> string" where
  "showInt i = (if i < 0 then CHR ''-'' # showNat (nat (- i)) else showNat (nat i))"

definition percent :: "int \<Rightarrow> string" where
  "percent n = showInt n @ ''%''"

subsection \<open>mergeImages\<close>

text \<open>
  \<open>doc\<close> is the document of the state read when the function starts and \<open>current\<close>
  the document of the view when the transaction is dispatched, after the two probes
  have been awaited; dispatching a transaction built on another document raises.
  \<open>getPos\<close> is what the node view's \<open>getPos\<close> gives, \<open>None\<close> for null. The outcome
  \<open>NotModelled\<close> marks the inputs the model does not follow: a target that is not an
  image, and a ratio that is not a finite number.
\<close>

datatype Outcome = Returned | Raised | NotModelled | Dispatched Doc

definition mergeImages ::
  "string \<Rightarrow> nat option \<Rightarrow> (string option \<Rightarrow> (nat \<times> nat) option) \<Rightarrow> Doc \<Rightarrow> Doc \<Rightarrow> string \<Rightarrow> Outcome" where
  "mergeImages ty getPos probe doc current draggedId =
     (case descendants ty draggedId doc 0 None of
        None \<Rightarrow> Returned
      | Some (draggedPos, draggedNode) \<Rightarrow>
          (case getPos of
             None \<Rightarrow> Returned
           | Some targetPos \<Rightarrow>
               (case nodeAt doc targetPos of
                  OutOfRange \<Rightarrow> Raised
                | NoNode \<Rightarrow> Returned
                | OtherNode \<Rightarrow> NotModelled
                | ImageNode targetNode \<Rightarrow>
                    (case (getImageAspectRatio probe (map_of (n_attrs targetNode) ''src''),
                           getImageAspectRatio probe (map_of (n_attrs draggedNode) ''src'')) of
                       (Some targetRatio, Some draggedRatio) \<Rightarrow>
                         (case widthPercents targetRatio draggedRatio of
                            None \<Rightarrow> NotModelled
                          | Some (targetWidthPercent, draggedWidthPercent) \<Rightarrow>
                              (let targetAttrs =
                                     AList.update ''width'' (percent targetWidthPercent)
                                       (n_attrs targetNode);
                                   draggedAttrs =
                                     AList.update ''width'' (percent draggedWidthPercent)
                                       (n_attrs draggedNode);
                                   draggedNodeSize = nodeSize draggedNode;
                                   targetPosAfterDelete =
                                     (if draggedPos < targetPos then targetPos - draggedNodeSize
                                      else targetPos);
                                   insertPos = targetPosAfterDelete + nodeSize targetNode
                               in case setNodeMarkup targetPos targetAttrs doc of
                                    None \<Rightarrow> Raised
                                  | Some tr1 \<Rightarrow>
                                      (case setNodeMarkup draggedPos draggedAttrs tr1 of
                                         None \<Rightarrow> Raised
                                       | Some tr2 \<Rightarrow>
                                           (case deleteRange draggedPos (draggedPos + draggedNodeSize) tr2 of
                                              None \<Rightarrow> Raised
                                            | Some tr3 \<Rightarrow>
                                                (case insertNode insertPos
                                                        \<lparr>n_type = n_type draggedNode,
                                                         n_attrs = draggedAttrs,
                                                         n_content = n_content draggedNode,
                                                         n_marks = n_marks draggedNode\<rparr> tr3 of
                                                   None \<Rightarrow> Raised
                                                 | Some tr4 \<Rightarrow>
                                                     if current = doc then Dispatched tr4
                                                     else Raised)))))
                     | _ \<Rightarrow> NotModelled))))"




definition channelMean :: "(rgba \<Rightarrow> nat) \<Rightarrow> Surface \<Rightarrow> int \<Rightarrow> int \<Rightarrow> nat" where
  "channelMean ch s cx cy =
     sum_list (map (\<lambda>j. sum_list (map (\<lambda>i. ch (pixelAt s (cx + int i) (cy + int j))) [0..<10]))
                   [0..<10]) div 100"

definition blockColor :: "Surface \<Rightarrow> int \<Rightarrow> int \<Rightarrow> rgba" where
  "blockColor s cx cy =
     (channelMean red s cx cy, channelMean green s cx cy, channelMean blue s cx cy, 255)"

text \<open>The two nodes a merge writes: the target with its new width, and the dragged node as it is put back.\<close>

definition retargeted :: "Node \<Rightarrow> int \<Rightarrow> Node" where
  "retargeted n w =
     \<lparr>n_type = n_type n, n_attrs = AList.update ''width'' (percent w) (n_attrs n), n_content = [],
      n_marks = n_marks n\<rparr>"

definition reinserted :: "Node \<Rightarrow> int \<Rightarrow> Node" where
  "reinserted n w =
     \<lparr>n_type = n_type n, n_attrs = AList.update ''width'' (percent w) (n_attrs n),
      n_content = n_content n, n_marks = n_marks n\<rparr>"

section \<open>Sample inputs\<close>

definition sampleRaster :: Raster where
  "sampleRaster =
     \<lparr>drawImage = (\<lambda>img c. c\<lparr>s_pixel := pixelAt img\<rparr>),
      stroke = (\<lambda>style shape s. s),
      scaleDown = (\<lambda>w h. (min w 800, min h 600))\<rparr>"

definition sampleImage :: Surface where
  "sampleImage =
     \<lparr>s_width = 20, s_height = 20,
      s_pixel = (\<lambda>a b. if a = 7 \<and> b = 7 then (0, 0, 0, 255) else (255, 255, 255, 255))\<rparr>"

definition sampleAction :: "ActionType \<Rightarrow> int \<Rightarrow> int \<Rightarrow> int \<Rightarrow> int \<Rightarrow> DrawAction" where
  "sampleAction t a b c d =
     \<lparr>a_type = t, a_points = [\<lparr>px = a, py = b\<rparr>, \<lparr>px = c, py = d\<rparr>], a_color = ''#ff0000'',
      a_lineWidth = Some 3\<rparr>"

definition sampleNode :: "string \<Rightarrow> string \<Rightarrow> Node" where
  "sampleNode i s =
     \<lparr>n_type = ''image'', n_attrs = [(''id'', i), (''src'', s), (''width'', ''auto'')],
      n_content = [], n_marks = [''link'']\<rparr>"

definition sampleDoc :: Doc where
  "sampleDoc =
     [Open ''paragraph'', Leaf (sampleNode ''a'' ''wide.png''), Chr CHR ''x'',
      Leaf (sampleNode ''b'' ''square.png''), Close]"

definition sampleProbe :: "string option \<Rightarrow> (nat \<times> nat) option" where
  "sampleProbe s = (if s = Some ''wide.png'' then Some (200, 100)
                    else if s = Some ''square.png'' then Some (100, 100) else None)"

section \<open>Properties of the photo editor\<close>

subsection \<open>Rendering leaves all state but the canvas alone\<close>

lemma rerender_fields [simp]:
  "image (rerender api st) = image st"
  "tool (rerender api st) = tool st"
  "color (rerender api st) = color st"
  "lineWidth (rerender api st) = lineWidth st"
  "isDrawing (rerender api st) = isDrawing st"
  "startPoint (rerender api st) = startPoint st"
  "currentPath (rerender api st) = currentPath st"
  "history (rerender api st) = history st"
  "historyStep (rerender api st) = historyStep st"
  "loading (rerender api st) = loading st"
  by (simp_all add: rerender_def Let_def split: option.split)

lemma clearRect_blank [simp]: "clearRect (blank w h) = blank w h"
  by (simp add: clearRect_def blank_def)

lemma rerender_None: "image st = None \<Longrightarrow> rerender api st = st"
  by (simp add: rerender_def)

lemma rerender_Some:
  "image st = Some img \<Longrightarrow>
   rerender api st = st\<lparr>canvas := composite api img (slice0 (history st) (historyStep st + 1))\<rparr>"
  by (simp add: rerender_def redrawCanvas_def composite_def Let_def)

lemma rerender_step_absorb:
  "rerender api ((rerender api st)\<lparr>historyStep := k\<rparr>) = rerender api (st\<lparr>historyStep := k\<rparr>)"
  by (cases "image st") (simp_all add: rerender_None rerender_Some)

lemma synced_rerender: "synced api (rerender api st)"
  by (cases "image st") (simp_all add: synced_def rerender_None rerender_Some)

lemma synced_canvas:
  assumes "synced api st" and "image st = Some img"
  shows "canvas st = composite api img (slice0 (history st) (historyStep st + 1))"
proof -
  have "canvas (rerender api st) = composite api img (slice0 (history st) (historyStep st + 1))"
    by (simp add: rerender_Some [OF assms(2)])
  with assms(1) show ?thesis by (simp add: synced_def)
qed

subsection \<open>Undo, redo and record\<close>

lemma handleUndo_fields [simp]:
  "image (handleUndo api st) = image st"
  "tool (handleUndo api st) = tool st"
  "isDrawing (handleUndo api st) = isDrawing st"
  "startPoint (handleUndo api st) = startPoint st"
  "currentPath (handleUndo api st) = currentPath st"
  "history (handleUndo api st) = history st"
  "loading (handleUndo api st) = loading st"
  "historyStep (handleUndo api st) = (if historyStep st > - 1 then historyStep st - 1 else historyStep st)"
  by (simp_all add: handleUndo_def)

lemma handleRedo_fields [simp]:
  "image (handleRedo api st) = image st"
  "tool (handleRedo api st) = tool st"
  "isDrawing (handleRedo api st) = isDrawing st"
  "startPoint (handleRedo api st) = startPoint st"
  "currentPath (handleRedo api st) = currentPath st"
  "history (handleRedo api st) = history st"
  "loading (handleRedo api st) = loading st"
  "historyStep (handleRedo api st) =
     (if historyStep st < int (length (history st)) - 1 then historyStep st + 1 else historyStep st)"
  by (simp_all add: handleRedo_def)

lemma addToHistory_fields [simp]:
  "image (addToHistory api a st) = image st"
  "tool (addToHistory api a st) = tool st"
  "color (addToHistory api a st) = color st"
  "lineWidth (addToHistory api a st) = lineWidth st"
  "isDrawing (addToHistory api a st) = isDrawing st"
  "startPoint (addToHistory api a st) = startPoint st"
  "currentPath (addToHistory api a st) = currentPath st"
  "loading (addToHistory api a st) = loading st"
  "history (addToHistory api a st) = slice0 (history st) (historyStep st + 1) @ [a]"
  "historyStep (addToHistory api a st) = int (length (slice0 (history st) (historyStep st + 1)))"
  by (simp_all add: addToHistory_def Let_def)

lemma undo_iter:
  "synced api st \<Longrightarrow> int n \<le> historyStep st + 1 \<Longrightarrow>
   (handleUndo api ^^ n) st = rerender api (st\<lparr>historyStep := historyStep st - int n\<rparr>)"
proof (induction n)
  case 0
  then show ?case by (simp add: synced_def)
next
  case (Suc n)
  then have "(handleUndo api ^^ n) st = rerender api (st\<lparr>historyStep := historyStep st - int n\<rparr>)"
    by simp
  moreover have "historyStep st - int n > - 1" using Suc.prems by simp
  ultimately show ?case
    by (simp add: handleUndo_def [of api "rerender api x" for x] rerender_step_absorb algebra_simps)
qed

lemma redo_iter:
  "synced api st \<Longrightarrow> historyStep st + int n \<le> int (length (history st)) - 1 \<Longrightarrow>
   (handleRedo api ^^ n) st = rerender api (st\<lparr>historyStep := historyStep st + int n\<rparr>)"
proof (induction n)
  case 0
  then show ?case by (simp add: synced_def)
next
  case (Suc n)
  then have "(handleRedo api ^^ n) st = rerender api (st\<lparr>historyStep := historyStep st + int n\<rparr>)"
    by simp
  moreover have "historyStep st + int n < int (length (history st)) - 1" using Suc.prems by simp
  ultimately show ?case
    by (simp add: handleRedo_def [of api "rerender api x" for x] rerender_step_absorb algebra_simps)
qed

lemma redo_at_end:
  "historyStep st = int (length (history st)) - 1 \<Longrightarrow> (handleRedo api ^^ n) st = st"
  by (induction n) (simp_all add: handleRedo_def)

lemma synced_addToHistory: "synced api (addToHistory api a st)"
  by (simp add: addToHistory_def Let_def synced_rerender)

lemma slice0_all: "n = int (length xs) \<Longrightarrow> slice0 xs n = xs"
  by (simp add: slice0_def)

lemma slice0_take: "- 1 \<le> k \<Longrightarrow> slice0 xs (k + 1) = take (nat (k + 1)) xs"
  by (simp add: slice0_def)

lemma recordAll_snoc: "recordAll api st (acts @ [a]) = addToHistory api a (recordAll api st acts)"
  by (simp add: recordAll_def)

lemma recordAll_history:
  "acts \<noteq> [] \<Longrightarrow>
   history (recordAll api st acts) = slice0 (history st) (historyStep st + 1) @ acts \<and>
   historyStep (recordAll api st acts) = int (length (history (recordAll api st acts))) - 1 \<and>
   synced api (recordAll api st acts)"
proof (induction acts rule: rev_induct)
  case Nil
  then show ?case by simp
next
  case (snoc a acts)
  show ?case
  proof (cases "acts = []")
    case True
    then show ?thesis by (simp add: recordAll_def synced_addToHistory)
  next
    case False
    with snoc.IH show ?thesis
      by (simp add: recordAll_snoc synced_addToHistory slice0_all)
  qed
qed

lemma recordAll_image [simp]: "image (recordAll api st acts) = image st"
  by (induction acts rule: rev_induct) (simp add: recordAll_def, simp add: recordAll_snoc)

text \<open>
  C1. For every base image and every sequence of recorded actions, undoing as many
  times as actions were recorded and then redoing as many times gives back the state
  reached after the last record, canvas included; and that canvas is the image drawn
  on a cleared canvas with the actions that were active before, followed by all the
  recorded ones, applied in order.
\<close>

theorem undo_redo_replay:
  "(handleRedo api ^^ length acts) ((handleUndo api ^^ length acts) (recordAll api st0 acts))
     = recordAll api st0 acts \<and>
   (acts \<noteq> [] \<and> image st0 = Some img \<longrightarrow>
      canvas ((handleRedo api ^^ length acts) ((handleUndo api ^^ length acts) (recordAll api st0 acts)))
        = foldl (applyAction api)
            (drawImage api img (blank (fst (canvasSize api img)) (snd (canvasSize api img))))
            (slice0 (history st0) (historyStep st0 + 1) @ acts))"
proof (cases "acts = []")
  case True
  then show ?thesis by simp
next
  case False
  define st where "st = recordAll api st0 acts"
  define n where "n = length acts"
  from recordAll_history [OF False, of api st0]
  have h: "history st = slice0 (history st0) (historyStep st0 + 1) @ acts"
    and s: "historyStep st = int (length (history st)) - 1"
    and y: "synced api st"
    by (simp_all add: st_def)
  have le: "int n \<le> historyStep st + 1" by (simp add: s h n_def)
  have u: "(handleUndo api ^^ n) st = rerender api (st\<lparr>historyStep := historyStep st - int n\<rparr>)"
    by (rule undo_iter [OF y le])
  let ?u = "rerender api (st\<lparr>historyStep := historyStep st - int n\<rparr>)"
  have r: "(handleRedo api ^^ n) ?u = rerender api (?u\<lparr>historyStep := historyStep ?u + int n\<rparr>)"
    by (rule redo_iter) (simp_all add: synced_rerender s)
  have same: "(handleRedo api ^^ n) ((handleUndo api ^^ n) st) = st"
    using y by (simp add: u r rerender_step_absorb synced_def)
  have cv: "canvas st = composite api img (history st)" if "image st0 = Some img"
  proof -
    from that have "image st = Some img" by (simp add: st_def)
    from synced_canvas [OF y this] show ?thesis by (simp add: s slice0_all)
  qed
  show ?thesis
    using same cv by (simp add: st_def [symmetric] n_def [symmetric] h composite_def)
qed

theorem undo_redo_replay_witness:
  "(handleRedo sampleRaster ^^ length [sampleAction Mosaic 0 0 5 5, sampleAction Rectangle 1 1 4 4])
     ((handleUndo sampleRaster ^^ length [sampleAction Mosaic 0 0 5 5, sampleAction Rectangle 1 1 4 4])
        (recordAll sampleRaster (initialState\<lparr>image := Some sampleImage\<rparr>)
           [sampleAction Mosaic 0 0 5 5, sampleAction Rectangle 1 1 4 4]))
     = recordAll sampleRaster (initialState\<lparr>image := Some sampleImage\<rparr>)
         [sampleAction Mosaic 0 0 5 5, sampleAction Rectangle 1 1 4 4] \<and>
   canvas ((handleRedo sampleRaster ^^ length [sampleAction Mosaic 0 0 5 5, sampleAction Rectangle 1 1 4 4])
     ((handleUndo sampleRaster ^^ length [sampleAction Mosaic 0 0 5 5, sampleAction Rectangle 1 1 4 4])
        (recordAll sampleRaster (initialState\<lparr>image := Some sampleImage\<rparr>)
           [sampleAction Mosaic 0 0 5 5, sampleAction Rectangle 1 1 4 4])))
     = foldl (applyAction sampleRaster) (drawImage sampleRaster sampleImage (blank 20 20))
         [sampleAction Mosaic 0 0 5 5, sampleAction Rectangle 1 1 4 4]"
proof -
  have i: "image (initialState\<lparr>image := Some sampleImage\<rparr>) = Some sampleImage"
    by simp
  have c: "canvasSize sampleRaster sampleImage = (20, 20)"
    by (simp add: canvasSize_def sampleImage_def)
  have e: "slice0 (history (initialState\<lparr>image := Some sampleImage\<rparr>))
             (historyStep (initialState\<lparr>image := Some sampleImage\<rparr>) + 1) = []"
    by (simp add: initialState_def slice0_def)
  have n: "[sampleAction Mosaic 0 0 5 5, sampleAction Rectangle 1 1 4 4] \<noteq> []"
    by simp
  from undo_redo_replay [where api = sampleRaster and img = sampleImage
      and ?st0.0 = "initialState\<lparr>image := Some sampleImage\<rparr>"
      and acts = "[sampleAction Mosaic 0 0 5 5, sampleAction Rectangle 1 1 4 4]"] i n
  show ?thesis unfolding c e fst_conv snd_conv append_Nil by blast
qed

text \<open>
  C2. With the cursor inside its bounds, recording an action replaces the history by
  its first cursor + 1 entries followed by the action and puts the cursor on the new
  last entry, after which no number of redos changes anything. From the history
  [a1, a2, a3] with the cursor on 2, two undos put the cursor on 0, and recording a4
  then gives [a1, a4] with the cursor on 1, whatever number of redos follows.
\<close>

theorem record_truncates_redo_branch:
  "(- 1 \<le> historyStep st \<and> historyStep st < int (length (history st)) \<longrightarrow>
      history (addToHistory api a st) = take (nat (historyStep st + 1)) (history st) @ [a] \<and>
      historyStep (addToHistory api a st) = int (length (history (addToHistory api a st))) - 1 \<and>
      (\<forall>n. (handleRedo api ^^ n) (addToHistory api a st) = addToHistory api a st)) \<and>
   (history st = [a1, a2, a3] \<and> historyStep st = 2 \<longrightarrow>
      historyStep (handleUndo api (handleUndo api st)) = 0 \<and>
      history (addToHistory api a4 (handleUndo api (handleUndo api st))) = [a1, a4] \<and>
      historyStep (addToHistory api a4 (handleUndo api (handleUndo api st))) = 1 \<and>
      (\<forall>n. history ((handleRedo api ^^ n) (addToHistory api a4 (handleUndo api (handleUndo api st))))
              = [a1, a4] \<and>
           historyStep ((handleRedo api ^^ n) (addToHistory api a4 (handleUndo api (handleUndo api st))))
              = 1))"
proof (intro conjI impI)
  assume v: "- 1 \<le> historyStep st \<and> historyStep st < int (length (history st))"
  then show "history (addToHistory api a st) = take (nat (historyStep st + 1)) (history st) @ [a]"
    by (simp add: slice0_take)
  show e: "historyStep (addToHistory api a st) = int (length (history (addToHistory api a st))) - 1"
    by simp
  show "\<forall>n. (handleRedo api ^^ n) (addToHistory api a st) = addToHistory api a st"
    using redo_at_end [OF e] by blast
next
  assume x: "history st = [a1, a2, a3] \<and> historyStep st = 2"
  let ?u = "handleUndo api (handleUndo api st)"
  show "historyStep ?u = 0" using x by simp
  show h: "history (addToHistory api a4 ?u) = [a1, a4]"
    using x by (simp add: slice0_def)
  show s: "historyStep (addToHistory api a4 ?u) = 1"
    using x by (simp add: slice0_def)
  have "historyStep (addToHistory api a4 ?u) = int (length (history (addToHistory api a4 ?u))) - 1"
    by simp
  from redo_at_end [OF this]
  show "\<forall>n. history ((handleRedo api ^^ n) (addToHistory api a4 ?u)) = [a1, a4] \<and>
            historyStep ((handleRedo api ^^ n) (addToHistory api a4 ?u)) = 1"
    using h s by simp
qed

theorem record_truncates_redo_branch_witness:
  "history (addToHistory sampleRaster (sampleAction Pen 0 0 9 9)
     (handleUndo sampleRaster (handleUndo sampleRaster
        (initialState\<lparr>history := [sampleAction Mosaic 0 0 5 5, sampleAction Rectangle 1 1 4 4,
                                   sampleAction Circle 2 2 3 3],
                      historyStep := 2\<rparr>))))
     = [sampleAction Mosaic 0 0 5 5, sampleAction Pen 0 0 9 9] \<and>
   historyStep (addToHistory sampleRaster (sampleAction Pen 0 0 9 9)
     (handleUndo sampleRaster (handleUndo sampleRaster
        (initialState\<lparr>history := [sampleAction Mosaic 0 0 5 5, sampleAction Rectangle 1 1 4 4,
                                   sampleAction Circle 2 2 3 3],
                      historyStep := 2\<rparr>)))) = 1 \<and>
   history (addToHistory sampleRaster (sampleAction Pen 0 0 9 9)
        (initialState\<lparr>history := [sampleAction Mosaic 0 0 5 5, sampleAction Rectangle 1 1 4 4,
                                   sampleAction Circle 2 2 3 3],
                      historyStep := 2\<rparr>))
     = [sampleAction Mosaic 0 0 5 5, sampleAction Rectangle 1 1 4 4, sampleAction Circle 2 2 3 3,
        sampleAction Pen 0 0 9 9]"
  using record_truncates_redo_branch [where api = sampleRaster
      and st = "initialState\<lparr>history := [sampleAction Mosaic 0 0 5 5, sampleAction Rectangle 1 1 4 4,
                                          sampleAction Circle 2 2 3 3],
                             historyStep := 2\<rparr>"
      and a = "sampleAction Pen 0 0 9 9" and ?a4.0 = "sampleAction Pen 0 0 9 9"
      and ?a1.0 = "sampleAction Mosaic 0 0 5 5" and ?a2.0 = "sampleAction Rectangle 1 1 4 4"
      and ?a3.0 = "sampleAction Circle 2 2 3 3"]
  by simp

subsection \<open>The cursor stays inside the history\<close>

lemma endGesture_fields [simp]:
  "image (endGesture st) = image st"
  "tool (endGesture st) = tool st"
  "isDrawing (endGesture st) = isDrawing st"
  "history (endGesture st) = history st"
  "historyStep (endGesture st) = historyStep st"
  "loading (endGesture st) = loading st"
  "canvas (endGesture st) = canvas st"
  "startPoint (endGesture st) = None"
  "currentPath (endGesture st) = []"
  by (simp_all add: endGesture_def)

lemma applyCrop_fields:
  "applyCrop p0 p1 st = Some st2 \<Longrightarrow>
   image st2 = image st \<and> history st2 = history st \<and> historyStep st2 = historyStep st \<and>
   tool st2 = tool st \<and> isDrawing st2 = isDrawing st"
  by (auto simp: applyCrop_def Let_def split: if_splits option.splits)

lemma handleMouseDown_fields [simp]:
  "image (handleMouseDown p st) = image st"
  "tool (handleMouseDown p st) = tool st"
  "history (handleMouseDown p st) = history st"
  "historyStep (handleMouseDown p st) = historyStep st"
  "loading (handleMouseDown p st) = loading st"
  "canvas (handleMouseDown p st) = canvas st"
  by (simp_all add: handleMouseDown_def)

lemma handleMouseMove_fields [simp]:
  "image (handleMouseMove api p st) = image st"
  "tool (handleMouseMove api p st) = tool st"
  "isDrawing (handleMouseMove api p st) = isDrawing st"
  "startPoint (handleMouseMove api p st) = startPoint st"
  "history (handleMouseMove api p st) = history st"
  "historyStep (handleMouseMove api p st) = historyStep st"
  "loading (handleMouseMove api p st) = loading st"
  by (simp_all add: handleMouseMove_def Let_def split: option.split Tool.split list.split)

lemma cursorInv_addToHistory: "cursorInv (addToHistory api a st)"
  by (simp add: cursorInv_def)

lemma cursorInv_handleMouseUp: "cursorInv st \<Longrightarrow> cursorInv (handleMouseUp api p st)"
  by (auto simp: handleMouseUp_def Let_def cursorInv_def
      split: option.split Tool.split dest!: applyCrop_fields)

lemma cursorInv_handleUndo: "cursorInv st \<Longrightarrow> cursorInv (handleUndo api st)"
  by (simp add: cursorInv_def)

lemma cursorInv_handleRedo: "cursorInv st \<Longrightarrow> cursorInv (handleRedo api st)"
  by (simp add: cursorInv_def)

lemma cursorInv_cropLoaded: "cursorInv st \<Longrightarrow> cursorInv (cropLoaded api i st)"
  by (simp add: cropLoaded_def cursorInv_def)

lemma cursorInv_imageLoaded: "cursorInv st \<Longrightarrow> cursorInv (imageLoaded api img st)"
  by (simp add: imageLoaded_def cursorInv_def)

lemma cursorInv_fire: "cursorInv st \<Longrightarrow> cursorInv (fire api st e)"
  by (cases e)
    (simp_all add: cursorInv_handleMouseUp cursorInv_handleUndo cursorInv_handleRedo
      cursorInv_cropLoaded cursorInv_imageLoaded,
     simp_all add: cursorInv_def)

lemma cursorInv_run: "cursorInv st \<Longrightarrow> cursorInv (run api st evs)"
  unfolding run_def by (induction evs arbitrary: st) (simp_all add: cursorInv_fire)

lemma cursorInv_initialState: "cursorInv initialState"
  by (simp add: cursorInv_def initialState_def)

text \<open>
  C9. The cursor is at least -1 and below the length of the history in the initial
  state and after every sequence of events from it; and from any state where this
  holds it holds again after a record, an undo, a redo, the load of a cropped image,
  the load of a base image, and any single event.
\<close>

theorem history_cursor_invariant:
  "cursorInv initialState \<and>
   cursorInv (run api initialState evs) \<and>
   (cursorInv st \<longrightarrow>
      cursorInv (addToHistory api a st) \<and> cursorInv (handleUndo api st) \<and>
      cursorInv (handleRedo api st) \<and> cursorInv (cropLoaded api i st) \<and>
      cursorInv (imageLoaded api img st) \<and> cursorInv (fire api st e))"
  by (simp add: cursorInv_initialState cursorInv_run cursorInv_addToHistory cursorInv_handleUndo
      cursorInv_handleRedo cursorInv_cropLoaded cursorInv_imageLoaded cursorInv_fire)

theorem history_cursor_invariant_witness:
  "cursorInv (addToHistory sampleRaster (sampleAction Pen 0 0 9 9) initialState) \<and>
   cursorInv (handleUndo sampleRaster initialState) \<and>
   cursorInv (handleRedo sampleRaster initialState) \<and>
   cursorInv (cropLoaded sampleRaster 0 initialState) \<and>
   cursorInv (imageLoaded sampleRaster sampleImage initialState) \<and>
   cursorInv (fire sampleRaster initialState Undo) \<and>
   cursorInv (run sampleRaster initialState
     [ImageLoaded sampleImage, SetTool ToolMosaic, MouseDown \<lparr>px = 1, py = 1\<rparr>,
      MouseUp \<lparr>px = 15, py = 12\<rparr>, Undo, Redo])"
  using history_cursor_invariant [where api = sampleRaster and st = initialState
      and a = "sampleAction Pen 0 0 9 9" and i = 0 and img = sampleImage and e = Undo
      and evs = "[ImageLoaded sampleImage, SetTool ToolMosaic, MouseDown \<lparr>px = 1, py = 1\<rparr>,
                  MouseUp \<lparr>px = 15, py = 12\<rparr>, Undo, Redo]"]
  by blast

subsection \<open>Loading an image\<close>

text \<open>
  C5. Loading a base image leaves the history and the cursor as they are. After an
  image is loaded and a rectangle is drawn on it, the load of another image keeps the
  rectangle in the history with the cursor on it; only the load of a cropped image
  resets both.
\<close>

theorem image_load_keeps_history:
  "history (run sampleRaster initialState
      [ImageLoaded sampleImage, SetTool ToolRectangle, MouseDown \<lparr>px = 1, py = 1\<rparr>,
       MouseUp \<lparr>px = 8, py = 6\<rparr>, ImageLoaded (blank 50 40)])
     = [\<lparr>a_type = Rectangle, a_points = [\<lparr>px = 1, py = 1\<rparr>, \<lparr>px = 8, py = 6\<rparr>],
         a_color = ''#ff0000'', a_lineWidth = Some 3\<rparr>] \<and>
   historyStep (run sampleRaster initialState
      [ImageLoaded sampleImage, SetTool ToolRectangle, MouseDown \<lparr>px = 1, py = 1\<rparr>,
       MouseUp \<lparr>px = 8, py = 6\<rparr>, ImageLoaded (blank 50 40)]) = 0 \<and>
   image (run sampleRaster initialState
      [ImageLoaded sampleImage, SetTool ToolRectangle, MouseDown \<lparr>px = 1, py = 1\<rparr>,
       MouseUp \<lparr>px = 8, py = 6\<rparr>, ImageLoaded (blank 50 40)]) = Some (blank 50 40)"
  by (simp add: run_def imageLoaded_def handleMouseDown_def handleMouseUp_def Let_def
      initialState_def slice0_def)

subsection \<open>Gestures\<close>

lemma moves_fields [simp]:
  "image (foldl (\<lambda>s p. handleMouseMove api p s) st ps) = image st"
  "tool (foldl (\<lambda>s p. handleMouseMove api p s) st ps) = tool st"
  "isDrawing (foldl (\<lambda>s p. handleMouseMove api p s) st ps) = isDrawing st"
  "startPoint (foldl (\<lambda>s p. handleMouseMove api p s) st ps) = startPoint st"
  "history (foldl (\<lambda>s p. handleMouseMove api p s) st ps) = history st"
  "historyStep (foldl (\<lambda>s p. handleMouseMove api p s) st ps) = historyStep st"
  "loading (foldl (\<lambda>s p. handleMouseMove api p s) st ps) = loading st"
  by (induction ps arbitrary: st) simp_all

lemma handleMouseUp_eraser:
  "tool st = ToolEraser \<Longrightarrow>
   image (handleMouseUp api p st) = image st \<and> history (handleMouseUp api p st) = history st \<and>
   historyStep (handleMouseUp api p st) = historyStep st \<and>
   loading (handleMouseUp api p st) = loading st \<and> tool (handleMouseUp api p st) = ToolEraser"
  by (simp add: handleMouseUp_def Let_def split: option.split)

lemma handleMouseUp_eraser_idle:
  "tool st = ToolEraser \<Longrightarrow> isDrawing st \<Longrightarrow> startPoint st = Some sp \<Longrightarrow>
   \<not> isDrawing (handleMouseUp api p st) \<and> startPoint (handleMouseUp api p st) = None \<and>
   currentPath (handleMouseUp api p st) = []"
  by (simp add: handleMouseUp_def Let_def)

lemma run_gesture:
  "image st \<noteq> None \<Longrightarrow>
   run api st (MouseDown p0 # map MouseMove moves @ [MouseUp p1]) =
   handleMouseUp api p1 (foldl (\<lambda>s p. handleMouseMove api p s) (handleMouseDown p0 st) moves)"
proof -
  have m: "foldl (fire api) s (map MouseMove moves) = foldl (\<lambda>s p. handleMouseMove api p s) s moves"
    if "image s \<noteq> None" for s
    using that by (induction moves arbitrary: s) auto
  assume i: "image st \<noteq> None"
  then show ?thesis by (auto simp: run_def m)
qed

lemma run_gesture_unmounted:
  "image st = None \<Longrightarrow> run api st (MouseDown p0 # map MouseMove moves @ [MouseUp p1]) = st"
proof -
  have m: "foldl (fire api) s (map MouseMove moves) = s" if "image s = None" for s
    using that by (induction moves arbitrary: s) simp_all
  assume "image st = None"
  then show ?thesis by (simp add: run_def m)
qed

text \<open>
  C10. With the tool set to the eraser, a whole gesture (pointer down, any number of
  moves, pointer up) records no action: the history, the cursor, the base image and the
  images still loading are as before, and the tool is still the eraser. Run through
  the handlers, the gesture ends idle, with no start point and an empty path.
\<close>

theorem eraser_gesture_records_nothing:
  "tool st = ToolEraser \<longrightarrow>
     history (run api st (MouseDown p0 # map MouseMove moves @ [MouseUp p1])) = history st \<and>
     historyStep (run api st (MouseDown p0 # map MouseMove moves @ [MouseUp p1])) = historyStep st \<and>
     image (run api st (MouseDown p0 # map MouseMove moves @ [MouseUp p1])) = image st \<and>
     loading (run api st (MouseDown p0 # map MouseMove moves @ [MouseUp p1])) = loading st \<and>
     tool (run api st (MouseDown p0 # map MouseMove moves @ [MouseUp p1])) = ToolEraser \<and>
     history (handleMouseUp api p1
        (foldl (\<lambda>s p. handleMouseMove api p s) (handleMouseDown p0 st) moves)) = history st \<and>
     historyStep (handleMouseUp api p1
        (foldl (\<lambda>s p. handleMouseMove api p s) (handleMouseDown p0 st) moves)) = historyStep st \<and>
     image (handleMouseUp api p1
        (foldl (\<lambda>s p. handleMouseMove api p s) (handleMouseDown p0 st) moves)) = image st \<and>
     loading (handleMouseUp api p1
        (foldl (\<lambda>s p. handleMouseMove api p s) (handleMouseDown p0 st) moves)) = loading st \<and>
     \<not> isDrawing (handleMouseUp api p1
        (foldl (\<lambda>s p. handleMouseMove api p s) (handleMouseDown p0 st) moves)) \<and>
     startPoint (handleMouseUp api p1
        (foldl (\<lambda>s p. handleMouseMove api p s) (handleMouseDown p0 st) moves)) = None \<and>
     currentPath (handleMouseUp api p1
        (foldl (\<lambda>s p. handleMouseMove api p s) (handleMouseDown p0 st) moves)) = []"
proof
  assume t: "tool st = ToolEraser"
  let ?g = "foldl (\<lambda>s p. handleMouseMove api p s) (handleMouseDown p0 st) moves"
  have tg: "tool ?g = ToolEraser" using t by simp
  have dg: "isDrawing ?g" "startPoint ?g = Some p0"
    using t by (simp_all add: handleMouseDown_def)
  note u = handleMouseUp_eraser [OF tg, of api p1]
  note v = handleMouseUp_eraser_idle [OF tg dg, of api p1]
  have r: "run api st (MouseDown p0 # map MouseMove moves @ [MouseUp p1]) =
           (if image st = None then st else handleMouseUp api p1 ?g)"
    by (simp add: run_gesture run_gesture_unmounted)
  show "history (run api st (MouseDown p0 # map MouseMove moves @ [MouseUp p1])) = history st \<and>
     historyStep (run api st (MouseDown p0 # map MouseMove moves @ [MouseUp p1])) = historyStep st \<and>
     image (run api st (MouseDown p0 # map MouseMove moves @ [MouseUp p1])) = image st \<and>
     loading (run api st (MouseDown p0 # map MouseMove moves @ [MouseUp p1])) = loading st \<and>
     tool (run api st (MouseDown p0 # map MouseMove moves @ [MouseUp p1])) = ToolEraser \<and>
     history (handleMouseUp api p1 ?g) = history st \<and>
     historyStep (handleMouseUp api p1 ?g) = historyStep st \<and>
     image (handleMouseUp api p1 ?g) = image st \<and>
     loading (handleMouseUp api p1 ?g) = loading st \<and>
     \<not> isDrawing (handleMouseUp api p1 ?g) \<and>
     startPoint (handleMouseUp api p1 ?g) = None \<and>
     currentPath (handleMouseUp api p1 ?g) = []"
    unfolding r using u v t by simp
qed

theorem eraser_gesture_records_nothing_witness:
  "run sampleRaster
     (initialState\<lparr>image := Some sampleImage, tool := ToolEraser,
                   history := [sampleAction Rectangle 1 1 4 4], historyStep := 0\<rparr>)
     [MouseDown \<lparr>px = 2, py = 2\<rparr>, MouseMove \<lparr>px = 5, py = 6\<rparr>, MouseMove \<lparr>px = 9, py = 9\<rparr>,
      MouseUp \<lparr>px = 9, py = 9\<rparr>]
   = initialState\<lparr>image := Some sampleImage, tool := ToolEraser,
                  history := [sampleAction Rectangle 1 1 4 4], historyStep := 0,
                  canvas := redrawCanvas sampleRaster
                    (initialState\<lparr>image := Some sampleImage,
                       canvas := redrawCanvas sampleRaster (initialState\<lparr>image := Some sampleImage,
                         history := [sampleAction Rectangle 1 1 4 4], historyStep := 0\<rparr>),
                       history := [sampleAction Rectangle 1 1 4 4], historyStep := 0\<rparr>)\<rparr> \<and>
   history (run sampleRaster
     (initialState\<lparr>image := Some sampleImage, tool := ToolEraser,
                   history := [sampleAction Rectangle 1 1 4 4], historyStep := 0\<rparr>)
     (MouseDown \<lparr>px = 2, py = 2\<rparr> # map MouseMove [\<lparr>px = 5, py = 6\<rparr>, \<lparr>px = 9, py = 9\<rparr>] @
      [MouseUp \<lparr>px = 9, py = 9\<rparr>])) = [sampleAction Rectangle 1 1 4 4]"
proof -
  have t: "tool (initialState\<lparr>image := Some sampleImage, tool := ToolEraser,
                   history := [sampleAction Rectangle 1 1 4 4], historyStep := 0\<rparr>) = ToolEraser"
    by simp
  have a: "run sampleRaster
     (initialState\<lparr>image := Some sampleImage, tool := ToolEraser,
                   history := [sampleAction Rectangle 1 1 4 4], historyStep := 0\<rparr>)
     [MouseDown \<lparr>px = 2, py = 2\<rparr>, MouseMove \<lparr>px = 5, py = 6\<rparr>, MouseMove \<lparr>px = 9, py = 9\<rparr>,
      MouseUp \<lparr>px = 9, py = 9\<rparr>]
   = initialState\<lparr>image := Some sampleImage, tool := ToolEraser,
                  history := [sampleAction Rectangle 1 1 4 4], historyStep := 0,
                  canvas := redrawCanvas sampleRaster
                    (initialState\<lparr>image := Some sampleImage,
                       canvas := redrawCanvas sampleRaster (initialState\<lparr>image := Some sampleImage,
                         history := [sampleAction Rectangle 1 1 4 4], historyStep := 0\<rparr>),
                       history := [sampleAction Rectangle 1 1 4 4], historyStep := 0\<rparr>)\<rparr>"
    by (simp add: run_def handleMouseDown_def handleMouseMove_def handleMouseUp_def Let_def
        initialState_def endGesture_def redrawCanvas_def)
  from eraser_gesture_records_nothing [where api = sampleRaster
      and st = "initialState\<lparr>image := Some sampleImage, tool := ToolEraser,
                   history := [sampleAction Rectangle 1 1 4 4], historyStep := 0\<rparr>"
      and ?p0.0 = "\<lparr>px = 2, py = 2\<rparr>" and ?p1.0 = "\<lparr>px = 9, py = 9\<rparr>"
      and moves = "[\<lparr>px = 5, py = 6\<rparr>, \<lparr>px = 9, py = 9\<rparr>]"] t
  have "history (run sampleRaster
     (initialState\<lparr>image := Some sampleImage, tool := ToolEraser,
                   history := [sampleAction Rectangle 1 1 4 4], historyStep := 0\<rparr>)
     (MouseDown \<lparr>px = 2, py = 2\<rparr> # map MouseMove [\<lparr>px = 5, py = 6\<rparr>, \<lparr>px = 9, py = 9\<rparr>] @
      [MouseUp \<lparr>px = 9, py = 9\<rparr>])) = [sampleAction Rectangle 1 1 4 4]"
    by simp
  with a show ?thesis by blast
qed

lemma mosaicRow_empty: "xEnd \<le> mX \<Longrightarrow> mosaicRow s mX xEnd mY = s"
  by (simp add: mosaicRow.simps)

lemma mosaicRows_no_width: "x1 = x0 \<Longrightarrow> mosaicRows s x0 x1 mY yEnd = s"
proof (induction s x0 x1 mY yEnd rule: mosaicRows.induct)
  case (1 s x0 xEnd mY yEnd)
  then show ?case
    by (subst mosaicRows.simps) (simp add: mosaicRow_empty)
qed

lemma mosaicRows_no_height: "yEnd \<le> mY \<Longrightarrow> mosaicRows s x0 xEnd mY yEnd = s"
  by (simp add: mosaicRows.simps)

lemma applyMosaic_degenerate:
  assumes "px p = px sp \<or> py p = py sp"
  shows "applyMosaic s [sp, p] = s"
proof -
  from assms have "\<bar>px p - px sp\<bar> = 0 \<or> \<bar>py p - py sp\<bar> = 0" by auto
  then show ?thesis
    by (auto simp: applyMosaic_def Let_def mosaicRows_no_width mosaicRows_no_height)
qed

lemma applyCrop_degenerate:
  "px p = px sp \<or> py p = py sp \<Longrightarrow> image st \<noteq> None \<Longrightarrow> applyCrop sp p st = None"
  by (auto simp: applyCrop_def Let_def getImageData_def)

lemma applyCrop_unmounted: "image st = None \<Longrightarrow> applyCrop sp p st = Some st"
  by (simp add: applyCrop_def)

text \<open>
  C4. When the pointer goes up on the column or on the row where it went down: with
  the crop tool the base image, the canvas (size and pixels), the history, the cursor
  and the images still loading are as before; with the mosaic tool a mosaic action
  over the two points is recorded all the same (the history is cut after the cursor,
  the action appended, the cursor put on it), and rendering that action changes no
  surface.
\<close>

theorem degenerate_gesture:
  "startPoint st = Some sp \<and> isDrawing st \<and> (px p = px sp \<or> py p = py sp) \<longrightarrow>
     (tool st = ToolCrop \<longrightarrow>
        image (handleMouseUp api p st) = image st \<and>
        canvas (handleMouseUp api p st) = canvas st \<and>
        history (handleMouseUp api p st) = history st \<and>
        historyStep (handleMouseUp api p st) = historyStep st \<and>
        loading (handleMouseUp api p st) = loading st) \<and>
     (tool st = ToolMosaic \<longrightarrow>
        history (handleMouseUp api p st) =
          slice0 (history st) (historyStep st + 1) @
            [\<lparr>a_type = Mosaic, a_points = [sp, p], a_color = color st, a_lineWidth = None\<rparr>] \<and>
        historyStep (handleMouseUp api p st) = int (length (history (handleMouseUp api p st))) - 1 \<and>
        image (handleMouseUp api p st) = image st \<and>
        (\<forall>s. applyAction api s
               \<lparr>a_type = Mosaic, a_points = [sp, p], a_color = color st, a_lineWidth = None\<rparr> = s))"
proof (intro impI conjI)
  assume h: "startPoint st = Some sp \<and> isDrawing st \<and> (px p = px sp \<or> py p = py sp)"
  then have d: "px p = px sp \<or> py p = py sp" by blast
  {
    assume t: "tool st = ToolCrop"
    have c: "handleMouseUp api p st =
             (if image st = None then endGesture (st\<lparr>isDrawing := False\<rparr>) else st\<lparr>isDrawing := False\<rparr>)"
      using h t by (simp add: handleMouseUp_def Let_def applyCrop_degenerate [OF d] applyCrop_unmounted)
    show "image (handleMouseUp api p st) = image st" by (simp add: c)
    show "canvas (handleMouseUp api p st) = canvas st" by (simp add: c)
    show "history (handleMouseUp api p st) = history st" by (simp add: c)
    show "historyStep (handleMouseUp api p st) = historyStep st" by (simp add: c)
    show "loading (handleMouseUp api p st) = loading st" by (simp add: c)
  }
  {
    assume t: "tool st = ToolMosaic"
    have m: "handleMouseUp api p st =
             endGesture (addToHistory api
               \<lparr>a_type = Mosaic, a_points = [sp, p], a_color = color st, a_lineWidth = None\<rparr>
               (st\<lparr>isDrawing := False\<rparr>))"
      using h t by (simp add: handleMouseUp_def Let_def)
    show "history (handleMouseUp api p st) =
          slice0 (history st) (historyStep st + 1) @
            [\<lparr>a_type = Mosaic, a_points = [sp, p], a_color = color st, a_lineWidth = None\<rparr>]"
      by (simp add: m)
    show "historyStep (handleMouseUp api p st) = int (length (history (handleMouseUp api p st))) - 1"
      by (simp add: m)
    show "image (handleMouseUp api p st) = image st" by (simp add: m)
    show "\<forall>s. applyAction api s
               \<lparr>a_type = Mosaic, a_points = [sp, p], a_color = color st, a_lineWidth = None\<rparr> = s"
      by (simp add: applyAction_def applyMosaic_degenerate [OF d])
  }
qed

theorem degenerate_gesture_witness:
  "handleMouseUp sampleRaster \<lparr>px = 5, py = 9\<rparr>
     (initialState\<lparr>image := Some sampleImage, tool := ToolCrop, isDrawing := True,
                   startPoint := Some \<lparr>px = 5, py = 5\<rparr>, canvas := sampleImage\<rparr>)
   = initialState\<lparr>image := Some sampleImage, tool := ToolCrop, isDrawing := False,
                  startPoint := Some \<lparr>px = 5, py = 5\<rparr>, canvas := sampleImage\<rparr> \<and>
   canvas (handleMouseUp sampleRaster \<lparr>px = 5, py = 9\<rparr>
     (initialState\<lparr>image := Some sampleImage, tool := ToolCrop, isDrawing := True,
                   startPoint := Some \<lparr>px = 5, py = 5\<rparr>, canvas := sampleImage\<rparr>)) = sampleImage \<and>
   history (handleMouseUp sampleRaster \<lparr>px = 5, py = 5\<rparr>
     (initialState\<lparr>image := Some sampleImage, tool := ToolMosaic, isDrawing := True,
                   startPoint := Some \<lparr>px = 5, py = 5\<rparr>, canvas := sampleImage\<rparr>))
   = [\<lparr>a_type = Mosaic, a_points = [\<lparr>px = 5, py = 5\<rparr>, \<lparr>px = 5, py = 5\<rparr>], a_color = ''#ff0000'',
       a_lineWidth = None\<rparr>]"
proof -
  let ?c = "initialState\<lparr>image := Some sampleImage, tool := ToolCrop, isDrawing := True,
                   startPoint := Some \<lparr>px = 5, py = 5\<rparr>, canvas := sampleImage\<rparr>"
  let ?m = "initialState\<lparr>image := Some sampleImage, tool := ToolMosaic, isDrawing := True,
                   startPoint := Some \<lparr>px = 5, py = 5\<rparr>, canvas := sampleImage\<rparr>"
  have a: "handleMouseUp sampleRaster \<lparr>px = 5, py = 9\<rparr> ?c
           = initialState\<lparr>image := Some sampleImage, tool := ToolCrop, isDrawing := False,
                  startPoint := Some \<lparr>px = 5, py = 5\<rparr>, canvas := sampleImage\<rparr>"
    by (simp add: handleMouseUp_def Let_def applyCrop_def getImageData_def initialState_def)
  have hc: "startPoint ?c = Some \<lparr>px = 5, py = 5\<rparr> \<and> isDrawing ?c \<and>
            (px \<lparr>px = 5, py = 9\<rparr> = px \<lparr>px = 5::int, py = 5::int\<rparr> \<or>
             py \<lparr>px = 5::int, py = 9\<rparr> = py \<lparr>px = 5::int, py = 5::int\<rparr>)"
    by simp
  have tc: "tool ?c = ToolCrop" by simp
  from degenerate_gesture [where api = sampleRaster and st = ?c and sp = "\<lparr>px = 5, py = 5\<rparr>"
      and p = "\<lparr>px = 5, py = 9\<rparr>"] hc tc
  have b: "canvas (handleMouseUp sampleRaster \<lparr>px = 5, py = 9\<rparr> ?c) = canvas ?c"
    by blast
  have hm: "startPoint ?m = Some \<lparr>px = 5, py = 5\<rparr> \<and> isDrawing ?m \<and>
            (px \<lparr>px = 5, py = 5\<rparr> = px \<lparr>px = 5::int, py = 5::int\<rparr> \<or>
             py \<lparr>px = 5::int, py = 5\<rparr> = py \<lparr>px = 5::int, py = 5::int\<rparr>)"
    by simp
  have tm: "tool ?m = ToolMosaic" by simp
  from degenerate_gesture [where api = sampleRaster and st = ?m and sp = "\<lparr>px = 5, py = 5\<rparr>"
      and p = "\<lparr>px = 5, py = 5\<rparr>"] hm tm
  have c: "history (handleMouseUp sampleRaster \<lparr>px = 5, py = 5\<rparr> ?m) =
          slice0 (history ?m) (historyStep ?m + 1) @
            [\<lparr>a_type = Mosaic, a_points = [\<lparr>px = 5, py = 5\<rparr>, \<lparr>px = 5, py = 5\<rparr>], a_color = color ?m,
              a_lineWidth = None\<rparr>]"
    by blast
  have d: "slice0 (history ?m) (historyStep ?m + 1) = []" "color ?m = ''#ff0000''"
    by (simp_all add: initialState_def slice0_def)
  from a b c show ?thesis unfolding d by simp
qed

theorem degenerate_mosaic_is_recorded:
  "history (run sampleRaster initialState
      [ImageLoaded sampleImage, SetTool ToolMosaic, MouseDown \<lparr>px = 5, py = 5\<rparr>,
       MouseUp \<lparr>px = 5, py = 5\<rparr>])
     = [\<lparr>a_type = Mosaic, a_points = [\<lparr>px = 5, py = 5\<rparr>, \<lparr>px = 5, py = 5\<rparr>],
         a_color = ''#ff0000'', a_lineWidth = None\<rparr>] \<and>
   historyStep (run sampleRaster initialState
      [ImageLoaded sampleImage, SetTool ToolMosaic, MouseDown \<lparr>px = 5, py = 5\<rparr>,
       MouseUp \<lparr>px = 5, py = 5\<rparr>]) = 0 \<and>
   history (run sampleRaster initialState
      [ImageLoaded sampleImage, SetTool ToolMosaic, MouseDown \<lparr>px = 5, py = 5\<rparr>]) = [] \<and>
   historyStep (run sampleRaster initialState
      [ImageLoaded sampleImage, SetTool ToolMosaic, MouseDown \<lparr>px = 5, py = 5\<rparr>]) = - 1"
  by (simp add: run_def imageLoaded_def handleMouseDown_def handleMouseUp_def Let_def
      initialState_def slice0_def)

section \<open>Properties of the merge\<close>

subsection \<open>Looking nodes up\<close>

lemma nodeAt_ImageNode: "nodeAt doc p = ImageNode n \<longleftrightarrow> p < length doc \<and> doc ! p = Leaf n"
  by (auto simp: nodeAt_def split: Token.splits)

lemma descendants_found:
  "descendants ty d ts pos found = Some (i, n) \<Longrightarrow>
   found = Some (i, n) \<or>
   (pos \<le> i \<and> i < pos + length ts \<and> ts ! (i - pos) = Leaf n \<and> n_type n = ty \<and>
    map_of (n_attrs n) ''id'' = Some d)"
proof (induction ts arbitrary: pos found)
  case Nil
  then show ?case by simp
next
  case (Cons t ts)
  let ?f = "case t of
              Leaf m \<Rightarrow> if n_type m = ty \<and> map_of (n_attrs m) ''id'' = Some d then Some (pos, m)
                        else found
            | _ \<Rightarrow> found"
  from Cons.prems have "descendants ty d ts (Suc pos) ?f = Some (i, n)" by simp
  from Cons.IH [OF this]
  consider (old) "?f = Some (i, n)"
    | (later) "Suc pos \<le> i" "i < Suc pos + length ts" "ts ! (i - Suc pos) = Leaf n"
        "n_type n = ty" "map_of (n_attrs n) ''id'' = Some d"
    by blast
  then show ?case
  proof cases
    case old
    then show ?thesis by (auto split: Token.splits if_splits)
  next
    case later
    then show ?thesis by (simp add: nth_Cons')
  qed
qed

lemma descendants_in_doc:
  assumes "descendants ty d doc 0 None = Some (i, n)"
  shows "i < length doc \<and> doc ! i = Leaf n \<and> n_type n = ty \<and> map_of (n_attrs n) ''id'' = Some d"
  using descendants_found [OF assms] by simp

subsection \<open>Widths\<close>

lemma mathRound_round: "mathRound v = round v"
  by (simp add: mathRound_def round_def)

lemma widthPercents_positive:
  "0 < rt \<Longrightarrow> 0 < rd \<Longrightarrow>
   widthPercents rt rd = Some (round (rt / (rt + rd) * 98), 98 - round (rt / (rt + rd) * 98))"
  by (simp add: widthPercents_def Let_def mathRound_round)




subsection \<open>The transaction\<close>

lemma merge_dispatched:
  assumes f: "descendants ty draggedId doc 0 None = Some (dpos, dn)"
    and t: "nodeAt doc tpos = ImageNode tn"
    and i: "map_of (n_attrs tn) ''id'' \<noteq> Some draggedId"
    and rt: "getImageAspectRatio probe (map_of (n_attrs tn) ''src'') = Some rt"
    and rd: "getImageAspectRatio probe (map_of (n_attrs dn) ''src'') = Some rd"
    and w: "widthPercents rt rd = Some (tw, dw)"
  shows "\<exists>d. mergeImages ty (Some tpos) probe doc doc draggedId = Dispatched d \<and>
             length d = length doc \<and>
             d ! (if dpos < tpos then tpos - 1 else tpos) = Leaf (retargeted tn tw) \<and>
             d ! Suc (if dpos < tpos then tpos - 1 else tpos) = Leaf (reinserted dn dw) \<and>
             take (Suc (if dpos < tpos then tpos - 1 else tpos)) d @
               drop (Suc (Suc (if dpos < tpos then tpos - 1 else tpos))) d =
             take dpos (doc[tpos := Leaf (retargeted tn tw)]) @
               drop (Suc dpos) (doc[tpos := Leaf (retargeted tn tw)])"
proof -
  from descendants_in_doc [OF f]
  have dl: "dpos < length doc" and dd: "doc ! dpos = Leaf dn"
    and di: "map_of (n_attrs dn) ''id'' = Some draggedId"
    by simp_all
  from t have tl: "tpos < length doc" and td: "doc ! tpos = Leaf tn"
    by (simp_all add: nodeAt_ImageNode)
  from i di td dd have ne: "dpos \<noteq> tpos" by auto
  define doc1 where "doc1 = doc[tpos := Leaf (retargeted tn tw)]"
  define doc2 where "doc2 = doc1[dpos := Leaf (retargeted dn dw)]"
  define doc3 where "doc3 = take dpos doc2 @ drop (Suc dpos) doc2"
  define q where "q = (if dpos < tpos then tpos - 1 else tpos)"
  define d where "d = take (Suc q) doc3 @ Leaf (reinserted dn dw) # drop (Suc q) doc3"
  have s1: "setNodeMarkup tpos (AList.update ''width'' (percent tw) (n_attrs tn)) doc = Some doc1"
    using tl td by (simp add: setNodeMarkup_def doc1_def retargeted_def)
  have "doc1 ! dpos = Leaf dn" using ne dd by (simp add: doc1_def)
  then have s2: "setNodeMarkup dpos (AList.update ''width'' (percent dw) (n_attrs dn)) doc1 = Some doc2"
    using dl by (simp add: setNodeMarkup_def doc2_def doc1_def retargeted_def)
  have l2: "length doc2 = length doc" by (simp add: doc2_def doc1_def)
  have s3: "deleteRange dpos (dpos + nodeSize dn) doc2 = Some doc3"
    using dl by (simp add: deleteRange_def nodeSize_def doc3_def l2)
  have l3: "Suc (length doc3) = length doc" using dl by (simp add: doc3_def l2)
  have ip: "(if dpos < tpos then tpos - nodeSize dn else tpos) + nodeSize tn = Suc q"
    using ne by (auto simp: q_def nodeSize_def)
  have ql: "Suc q \<le> length doc3" using l3 tl dl ne by (auto simp: q_def)
  have s4: "insertNode (Suc q) (reinserted dn dw) doc3 = Some d"
    using ql by (simp add: insertNode_def d_def)
  have m: "mergeImages ty (Some tpos) probe doc doc draggedId = Dispatched d"
    by (simp add: mergeImages_def f t rt rd w Let_def s1 s2 s3 ip s4 [unfolded reinserted_def])
  have ld: "length d = length doc" using ql l3 by (simp add: d_def)
  have q3: "doc3 ! q = Leaf (retargeted tn tw)"
  proof (cases "dpos < tpos")
    case True
    then have a: "\<not> tpos - 1 < dpos" and b: "Suc dpos + (tpos - 1 - dpos) = tpos"
      by arith+
    have "length (take dpos doc2) = dpos" using dl by (simp add: l2)
    then have "doc3 ! (tpos - 1) = drop (Suc dpos) doc2 ! (tpos - 1 - dpos)"
      using a by (simp add: doc3_def nth_append)
    also have "\<dots> = doc2 ! (Suc dpos + (tpos - 1 - dpos))"
      using tl True by (intro nth_drop) (simp add: l2)
    finally have "doc3 ! q = doc2 ! tpos"
      using True by (simp only: b q_def if_True)
    then show ?thesis using ne tl by (simp add: doc2_def doc1_def)
  next
    case False
    with ne have "tpos < dpos" by simp
    then have "doc3 ! q = doc2 ! tpos"
      using tl dl by (simp add: doc3_def q_def nth_append l2)
    then show ?thesis using ne tl by (simp add: doc2_def doc1_def)
  qed
  have dq: "d ! q = Leaf (retargeted tn tw)"
    using ql q3 by (simp add: d_def nth_append)
  have dsq: "d ! Suc q = Leaf (reinserted dn dw)"
    using ql by (simp add: d_def nth_append)
  have "take (Suc q) d @ drop (Suc (Suc q)) d = doc3"
    using ql by (simp add: d_def)
  also have "doc3 = take dpos doc1 @ drop (Suc dpos) doc1"
    by (simp add: doc3_def doc2_def)
  finally have rest: "take (Suc q) d @ drop (Suc (Suc q)) d = take dpos doc1 @ drop (Suc dpos) doc1" .
  from m ld dq dsq rest show ?thesis
    unfolding q_def doc1_def by blast
qed

lemma retargeted_fields [simp]:
  "n_type (retargeted n w) = n_type n"
  "n_marks (retargeted n w) = n_marks n"
  "map_of (n_attrs (retargeted n w)) = (map_of (n_attrs n))(''width'' \<mapsto> percent w)"
  by (simp_all add: retargeted_def update_conv')

lemma reinserted_fields [simp]:
  "n_type (reinserted n w) = n_type n"
  "n_marks (reinserted n w) = n_marks n"
  "n_content (reinserted n w) = n_content n"
  "map_of (n_attrs (reinserted n w)) = (map_of (n_attrs n))(''width'' \<mapsto> percent w)"
  by (simp_all add: reinserted_def update_conv')


lemma sample_merge_a_onto_b:
  "mergeImages ''image'' (Some 3) sampleProbe sampleDoc sampleDoc ''a'' =
   Dispatched
     [Open ''paragraph'', Chr CHR ''x'',
      Leaf \<lparr>n_type = ''image'', n_attrs = [(''id'', ''b''), (''src'', ''square.png''), (''width'', ''33%'')],
            n_content = [], n_marks = [''link'']\<rparr>,
      Leaf \<lparr>n_type = ''image'', n_attrs = [(''id'', ''a''), (''src'', ''wide.png''), (''width'', ''65%'')],
            n_content = [], n_marks = [''link'']\<rparr>,
      Close]"
  by code_simp


text \<open>
  C7. When the dragged image is found in the document, the target position holds an
  image with another id, and both ratios are positive, the merge is dispatched, and in
  the new document the dragged node stands right after the target, whether it stood
  before or after it: its type, content and marks are as before and so is every
  attribute but width; the target keeps its type, its marks and every attribute but
  width; and leaving the dragged node out of the new document gives the old document
  with the target's new attributes and the dragged node left out.
\<close>

theorem merge_places_dragged_after_target:
  "descendants ty draggedId doc 0 None = Some (dpos, dn) \<and> nodeAt doc tpos = ImageNode tn \<and>
   map_of (n_attrs tn) ''id'' \<noteq> Some draggedId \<and>
   getImageAspectRatio probe (map_of (n_attrs tn) ''src'') = Some rt \<and>
   getImageAspectRatio probe (map_of (n_attrs dn) ''src'') = Some rd \<and> 0 < rt \<and> 0 < rd \<longrightarrow>
     (\<exists>d q tn' dn'.
        mergeImages ty (Some tpos) probe doc doc draggedId = Dispatched d \<and>
        q = (if dpos < tpos then tpos - 1 else tpos) \<and>
        length d = length doc \<and> Suc q < length d \<and>
        d ! q = Leaf tn' \<and> d ! Suc q = Leaf dn' \<and>
        n_type tn' = n_type tn \<and> n_marks tn' = n_marks tn \<and>
        (\<forall>k. k \<noteq> ''width'' \<longrightarrow> map_of (n_attrs tn') k = map_of (n_attrs tn) k) \<and>
        n_type dn' = n_type dn \<and> n_content dn' = n_content dn \<and> n_marks dn' = n_marks dn \<and>
        (\<forall>k. k \<noteq> ''width'' \<longrightarrow> map_of (n_attrs dn') k = map_of (n_attrs dn) k) \<and>
        take (Suc q) d @ drop (Suc (Suc q)) d =
          take dpos (doc[tpos := Leaf tn']) @ drop (Suc dpos) (doc[tpos := Leaf tn']))"
proof
  assume a: "descendants ty draggedId doc 0 None = Some (dpos, dn) \<and> nodeAt doc tpos = ImageNode tn \<and>
    map_of (n_attrs tn) ''id'' \<noteq> Some draggedId \<and>
    getImageAspectRatio probe (map_of (n_attrs tn) ''src'') = Some rt \<and>
    getImageAspectRatio probe (map_of (n_attrs dn) ''src'') = Some rd \<and> 0 < rt \<and> 0 < rd"
  then have w: "widthPercents rt rd =
                Some (round (rt / (rt + rd) * 98), 98 - round (rt / (rt + rd) * 98))"
    by (simp add: widthPercents_positive)
  from a have f: "descendants ty draggedId doc 0 None = Some (dpos, dn)"
    and t: "nodeAt doc tpos = ImageNode tn"
    and i: "map_of (n_attrs tn) ''id'' \<noteq> Some draggedId"
    and r1: "getImageAspectRatio probe (map_of (n_attrs tn) ''src'') = Some rt"
    and r2: "getImageAspectRatio probe (map_of (n_attrs dn) ''src'') = Some rd"
    by simp_all
  define q where "q = (if dpos < tpos then tpos - 1 else tpos)"
  define tn' where "tn' = retargeted tn (round (rt / (rt + rd) * 98))"
  define dn' where "dn' = reinserted dn (98 - round (rt / (rt + rd) * 98))"
  from merge_dispatched [OF f t i r1 r2 w]
  obtain d where m: "mergeImages ty (Some tpos) probe doc doc draggedId = Dispatched d"
    and l: "length d = length doc"
    and dq: "d ! q = Leaf tn'" and ds: "d ! Suc q = Leaf dn'"
    and rest: "take (Suc q) d @ drop (Suc (Suc q)) d =
               take dpos (doc[tpos := Leaf tn']) @ drop (Suc dpos) (doc[tpos := Leaf tn'])"
    unfolding q_def tn'_def dn'_def by blast
  from descendants_in_doc [OF f] have dl: "dpos < length doc" and dd: "doc ! dpos = Leaf dn"
    and di: "map_of (n_attrs dn) ''id'' = Some draggedId" by simp_all
  from t have tl: "tpos < length doc" and td: "doc ! tpos = Leaf tn"
    by (simp_all add: nodeAt_ImageNode)
  from i di td dd have "dpos \<noteq> tpos" by auto
  with tl dl l have sq: "Suc q < length d" by (auto simp: q_def)
  have "n_type tn' = n_type tn" "n_marks tn' = n_marks tn"
       "\<forall>k. k \<noteq> ''width'' \<longrightarrow> map_of (n_attrs tn') k = map_of (n_attrs tn) k"
       "n_type dn' = n_type dn" "n_content dn' = n_content dn" "n_marks dn' = n_marks dn"
       "\<forall>k. k \<noteq> ''width'' \<longrightarrow> map_of (n_attrs dn') k = map_of (n_attrs dn) k"
    by (simp_all add: tn'_def dn'_def)
  with m l sq dq ds rest q_def
  have "mergeImages ty (Some tpos) probe doc doc draggedId = Dispatched d \<and>
        q = (if dpos < tpos then tpos - 1 else tpos) \<and>
        length d = length doc \<and> Suc q < length d \<and>
        d ! q = Leaf tn' \<and> d ! Suc q = Leaf dn' \<and>
        n_type tn' = n_type tn \<and> n_marks tn' = n_marks tn \<and>
        (\<forall>k. k \<noteq> ''width'' \<longrightarrow> map_of (n_attrs tn') k = map_of (n_attrs tn) k) \<and>
        n_type dn' = n_type dn \<and> n_content dn' = n_content dn \<and> n_marks dn' = n_marks dn \<and>
        (\<forall>k. k \<noteq> ''width'' \<longrightarrow> map_of (n_attrs dn') k = map_of (n_attrs dn) k) \<and>
        take (Suc q) d @ drop (Suc (Suc q)) d =
          take dpos (doc[tpos := Leaf tn']) @ drop (Suc dpos) (doc[tpos := Leaf tn'])"
    by (intro conjI) assumption+
  then show "\<exists>d q tn' dn'.
        mergeImages ty (Some tpos) probe doc doc draggedId = Dispatched d \<and>
        q = (if dpos < tpos then tpos - 1 else tpos) \<and>
        length d = length doc \<and> Suc q < length d \<and>
        d ! q = Leaf tn' \<and> d ! Suc q = Leaf dn' \<and>
        n_type tn' = n_type tn \<and> n_marks tn' = n_marks tn \<and>
        (\<forall>k. k \<noteq> ''width'' \<longrightarrow> map_of (n_attrs tn') k = map_of (n_attrs tn) k) \<and>
        n_type dn' = n_type dn \<and> n_content dn' = n_content dn \<and> n_marks dn' = n_marks dn \<and>
        (\<forall>k. k \<noteq> ''width'' \<longrightarrow> map_of (n_attrs dn') k = map_of (n_attrs dn) k) \<and>
        take (Suc q) d @ drop (Suc (Suc q)) d =
          take dpos (doc[tpos := Leaf tn']) @ drop (Suc dpos) (doc[tpos := Leaf tn'])"
    by (intro exI)
qed

theorem merge_places_dragged_after_target_witness:
  "(\<exists>d tn' dn'.
      mergeImages ''image'' (Some 3) sampleProbe sampleDoc sampleDoc ''a'' = Dispatched d \<and>
      length d = length sampleDoc \<and> d ! 2 = Leaf tn' \<and> d ! 3 = Leaf dn' \<and>
      n_content dn' = n_content (sampleNode ''a'' ''wide.png'') \<and>
      n_marks dn' = n_marks (sampleNode ''a'' ''wide.png'')) \<and>
   mergeImages ''image'' (Some 3) sampleProbe sampleDoc sampleDoc ''a'' =
   Dispatched
     [Open ''paragraph'', Chr CHR ''x'',
      Leaf \<lparr>n_type = ''image'', n_attrs = [(''id'', ''b''), (''src'', ''square.png''), (''width'', ''33%'')],
            n_content = [], n_marks = [''link'']\<rparr>,
      Leaf \<lparr>n_type = ''image'', n_attrs = [(''id'', ''a''), (''src'', ''wide.png''), (''width'', ''65%'')],
            n_content = [], n_marks = [''link'']\<rparr>,
      Close]"
proof -
  have h: "descendants ''image'' ''a'' sampleDoc 0 None = Some (1, sampleNode ''a'' ''wide.png'') \<and>
           nodeAt sampleDoc 3 = ImageNode (sampleNode ''b'' ''square.png'') \<and>
           map_of (n_attrs (sampleNode ''b'' ''square.png'')) ''id'' \<noteq> Some ''a'' \<and>
           getImageAspectRatio sampleProbe (map_of (n_attrs (sampleNode ''b'' ''square.png'')) ''src'') = Some 1 \<and>
           getImageAspectRatio sampleProbe (map_of (n_attrs (sampleNode ''a'' ''wide.png'')) ''src'') = Some 2 \<and>
           (0 :: rat) < 1 \<and> (0 :: rat) < 2"
    by code_simp
  note ex = merge_places_dragged_after_target [where rt = 1 and rd = 2 and ty = "''image''"
      and draggedId = "''a''" and doc = sampleDoc and dpos = 1 and dn = "sampleNode ''a'' ''wide.png''"
      and tpos = 3 and tn = "sampleNode ''b'' ''square.png''" and probe = sampleProbe, THEN mp, OF h]
  have "\<exists>d tn' dn'.
      mergeImages ''image'' (Some 3) sampleProbe sampleDoc sampleDoc ''a'' = Dispatched d \<and>
      length d = length sampleDoc \<and> d ! 2 = Leaf tn' \<and> d ! 3 = Leaf dn' \<and>
      n_content dn' = n_content (sampleNode ''a'' ''wide.png'') \<and>
      n_marks dn' = n_marks (sampleNode ''a'' ''wide.png'')"
    using ex
  proof (elim exE conjE)
    fix d q tn' dn'
    assume m: "mergeImages ''image'' (Some 3) sampleProbe sampleDoc sampleDoc ''a'' = Dispatched d"
      and q: "q = (if (1 :: nat) < 3 then 3 - 1 else 3)"
      and l: "length d = length sampleDoc"
      and dq: "d ! q = Leaf tn'" and ds: "d ! Suc q = Leaf dn'"
      and c: "n_content dn' = n_content (sampleNode ''a'' ''wide.png'')"
      and k: "n_marks dn' = n_marks (sampleNode ''a'' ''wide.png'')"
    from q have q2: "q = 2" and q3: "Suc q = 3" by simp_all
    from dq ds have "d ! 2 = Leaf tn'" "d ! 3 = Leaf dn'" unfolding q3 unfolding q2 .
    with m l c k show ?thesis by (intro exI conjI)
  qed
  with sample_merge_a_onto_b show ?thesis by (intro conjI)
qed





section \<open>Properties of the mosaic\<close>

lemma sum_list_const_10: "sum_list (map (\<lambda>j. (10 :: nat)) [0..<10]) = 100"
  by (simp add: sum_list_triv)

lemma sum_list_concat_rows: "sum_list (concat xss) = sum_list (map sum_list xss)"
  for xss :: "nat list list"
  by (induction xss) simp_all

lemma mosaicBlock_fill:
  "mosaicBlock s mX mY = fillRect (blockColor s mX mY) mX mY 10 10 s"
  by (simp add: mosaicBlock_def getImageData_def averageColor_def mosaicSize_def Let_def
      blockColor_def channelMean_def length_concat map_concat sum_list_concat_rows comp_def
      sum_list_const_10)

lemma mosaicBlock_size [simp]:
  "s_width (mosaicBlock s mX mY) = s_width s" "s_height (mosaicBlock s mX mY) = s_height s"
  by (simp_all add: mosaicBlock_fill fillRect_def)










lemma mosaicRow_size:
  "s_width (mosaicRow s mX xEnd mY) = s_width s \<and> s_height (mosaicRow s mX xEnd mY) = s_height s"
proof (induction s mX xEnd mY rule: mosaicRow.induct)
  case (1 s mX xEnd mY)
  show ?case
  proof (cases "mX < xEnd")
    case True
    with 1 show ?thesis by (subst (1 2) mosaicRow.simps) (simp add: mosaicSize_def)
  next
    case False
    then show ?thesis by (simp add: mosaicRow.simps)
  qed
qed

lemma mosaicBlock_onSurface [simp]: "onSurface (mosaicBlock s mX mY) a b = onSurface s a b"
  by (simp add: onSurface_def)

lemma mosaicRow_onSurface [simp]: "onSurface (mosaicRow s mX xEnd mY) a b = onSurface s a b"
  by (simp add: onSurface_def mosaicRow_size)












end
